theory Spec2Isabelle
  imports Complex_Main "HOL-Library.AList"
begin

section \<open>Floating-point cells\<close>

text \<open>
  A cell of a pandas column is a float64. The model keeps the four kinds of value the
  comparisons and the division of the source can tell apart: not-a-number (which is also
  how a missing value and an SQL NULL appear), the two infinities and the finite values.
  Finite values are real numbers: rounding and the sign of zero are outside the model.
\<close>

datatype fl = NaN | NInf | Fin real | PInf

fun fneg :: "fl \<Rightarrow> fl" where
  "fneg NaN = NaN"
| "fneg NInf = PInf"
| "fneg (Fin x) = Fin (- x)"
| "fneg PInf = NInf"

fun fadd :: "fl \<Rightarrow> fl \<Rightarrow> fl" where
  "fadd (Fin x) (Fin y) = Fin (x + y)"
| "fadd NaN b = NaN"
| "fadd a NaN = NaN"
| "fadd PInf NInf = NaN"
| "fadd NInf PInf = NaN"
| "fadd PInf b = PInf"
| "fadd a PInf = PInf"
| "fadd NInf b = NInf"
| "fadd a NInf = NInf"

definition fsub :: "fl \<Rightarrow> fl \<Rightarrow> fl" where
  "fsub a b = fadd a (fneg b)"

fun fmul :: "fl \<Rightarrow> fl \<Rightarrow> fl" where
  "fmul (Fin x) (Fin y) = Fin (x * y)"
| "fmul NaN b = NaN"
| "fmul a NaN = NaN"
| "fmul PInf (Fin y) = (if y = 0 then NaN else if 0 < y then PInf else NInf)"
| "fmul NInf (Fin y) = (if y = 0 then NaN else if 0 < y then NInf else PInf)"
| "fmul (Fin x) PInf = (if x = 0 then NaN else if 0 < x then PInf else NInf)"
| "fmul (Fin x) NInf = (if x = 0 then NaN else if 0 < x then NInf else PInf)"
| "fmul PInf PInf = PInf"
| "fmul PInf NInf = NInf"
| "fmul NInf PInf = NInf"
| "fmul NInf NInf = PInf"

fun fdiv :: "fl \<Rightarrow> fl \<Rightarrow> fl" where
  "fdiv (Fin x) (Fin y) =
     (if y = 0 then (if x = 0 then NaN else if 0 < x then PInf else NInf)
      else Fin (x / y))"
| "fdiv NaN b = NaN"
| "fdiv a NaN = NaN"
| "fdiv (Fin x) PInf = Fin 0"
| "fdiv (Fin x) NInf = Fin 0"
| "fdiv PInf (Fin y) = (if 0 \<le> y then PInf else NInf)"
| "fdiv NInf (Fin y) = (if 0 \<le> y then NInf else PInf)"
| "fdiv PInf b = NaN"
| "fdiv NInf b = NaN"

text \<open>Every comparison with a NaN operand is false, as in IEEE 754.\<close>

fun fle :: "fl \<Rightarrow> fl \<Rightarrow> bool" where
  "fle NaN b = False"
| "fle a NaN = False"
| "fle NInf b = True"
| "fle a PInf = True"
| "fle (Fin x) (Fin y) = (x \<le> y)"
| "fle (Fin x) NInf = False"
| "fle PInf b = False"

fun flt :: "fl \<Rightarrow> fl \<Rightarrow> bool" where
  "flt NaN b = False"
| "flt a NaN = False"
| "flt (Fin x) (Fin y) = (x < y)"
| "flt NInf NInf = False"
| "flt NInf b = True"
| "flt PInf b = False"
| "flt (Fin x) PInf = True"
| "flt (Fin x) NInf = False"

definition fge :: "fl \<Rightarrow> fl \<Rightarrow> bool" where
  "fge a b = fle b a"

definition fgt :: "fl \<Rightarrow> fl \<Rightarrow> bool" where
  "fgt a b = flt b a"

definition fmax :: "fl \<Rightarrow> fl \<Rightarrow> fl" where
  "fmax a b = (if flt a b then b else a)"

definition fmin :: "fl \<Rightarrow> fl \<Rightarrow> fl" where
  "fmin a b = (if flt b a then b else a)"

section \<open>Errors\<close>

text \<open>The exceptions the modelled code can raise; a computation that may raise
  returns \<open>error + 'a\<close> with \<open>Inl\<close> for the exception.\<close>

datatype error = KeyError string | ValueError | UnboundLocalError

definition ebind :: "error + 'a \<Rightarrow> ('a \<Rightarrow> error + 'b) \<Rightarrow> error + 'b" where
  "ebind m f = (case m of Inl e \<Rightarrow> Inl e | Inr x \<Rightarrow> f x)"

section \<open>Series\<close>

text \<open>
  A Series is the list of its cells in row order. All series the source combines come from
  one frame and carry its index, so pandas combines them position by position.
\<close>

definition shift :: "int \<Rightarrow> fl list \<Rightarrow> fl list" where
  "shift n xs =
     (if 0 \<le> n then take (length xs) (replicate (nat n) NaN @ xs)
      else drop (nat (- n)) xs @ replicate (min (nat (- n)) (length xs)) NaN)"

definition window :: "nat \<Rightarrow> nat \<Rightarrow> 'a list \<Rightarrow> 'a list" where
  "window w i xs = take (min w (Suc i)) (drop (Suc i - w) xs)"

fun fmaxs :: "fl list \<Rightarrow> fl" where
  "fmaxs [] = NaN"
| "fmaxs (x # xs) = fold (\<lambda>b a. fmax a b) xs x"

fun fmins :: "fl list \<Rightarrow> fl" where
  "fmins [] = NaN"
| "fmins (x # xs) = fold (\<lambda>b a. fmin a b) xs x"

definition fmean :: "fl list \<Rightarrow> fl" where
  "fmean ws = fdiv (fold (\<lambda>b a. fadd a b) ws (Fin 0)) (Fin (real (length ws)))"

text \<open>
  Before a rolling or exponentially weighted aggregation pandas replaces the infinite
  cells of the series by NaN, so that they count as missing.
\<close>

definition prep_values :: "fl list \<Rightarrow> fl list" where
  "prep_values xs = map (\<lambda>v. if v = PInf \<or> v = NInf then NaN else v) xs"

text \<open>
  \<open>rolling(w)\<close> with the default \<open>min_periods = w\<close>: the result at row \<open>i\<close> is NaN unless
  the window ending at \<open>i\<close> holds \<open>w\<close> observations that are not NaN; a window of size 0
  never has a result. The aggregate is taken over the cells of the window; the running
  sums by which pandas computes a rolling mean are not modelled.
\<close>

definition rolling_apply :: "(fl list \<Rightarrow> fl) \<Rightarrow> nat \<Rightarrow> fl list \<Rightarrow> fl list" where
  "rolling_apply agg w xs =
     (let values = prep_values xs in
      map (\<lambda>i. let ws = window w i values in
                if w = 0 \<or> length (filter (\<lambda>v. v \<noteq> NaN) ws) < w then NaN else agg ws)
          [0..<length values])"

text \<open>\<open>Series.rolling(window)\<close> raises ValueError for a negative window.\<close>

definition rolling :: "(fl list \<Rightarrow> fl) \<Rightarrow> int \<Rightarrow> fl list \<Rightarrow> error + fl list" where
  "rolling agg w xs = (if w < 0 then Inl ValueError else Inr (rolling_apply agg (nat w) xs))"

text \<open>
  \<open>ewm(span=s, adjust=False).mean()\<close>: pandas keeps the running average \<open>weighted\<close> and
  the weight \<open>old_wt\<close> of the past; a NaN cell leaves the average and decays the weight
  (\<open>ignore_na=False\<close>), and leading NaN cells give NaN.
\<close>

definition ewm_step :: "real \<Rightarrow> fl \<times> real \<Rightarrow> fl \<Rightarrow> fl \<times> real" where
  "ewm_step alpha st cur =
     (let weighted = fst st; old_wt = snd st in
      if weighted \<noteq> NaN then
        (let old_wt' = old_wt * (1 - alpha) in
         if cur \<noteq> NaN then
           ((if weighted \<noteq> cur
             then fdiv (fadd (fmul (Fin old_wt') weighted) (fmul (Fin alpha) cur))
                       (Fin (old_wt' + alpha))
             else weighted), 1)
         else (weighted, old_wt'))
      else if cur \<noteq> NaN then (cur, old_wt)
      else (weighted, old_wt))"

fun ewm_loop :: "real \<Rightarrow> fl \<times> real \<Rightarrow> fl list \<Rightarrow> fl list" where
  "ewm_loop alpha st [] = []"
| "ewm_loop alpha st (cur # rest) =
     (let st' = ewm_step alpha st cur in fst st' # ewm_loop alpha st' rest)"

definition ewm_mean :: "nat \<Rightarrow> fl list \<Rightarrow> fl list" where
  "ewm_mean spn xs =
     (case prep_values xs of [] \<Rightarrow> []
      | x # rest \<Rightarrow> x # ewm_loop (2 / (real spn + 1)) (x, 1) rest)"

section \<open>Data frames\<close>

text \<open>
  A calendar date stands for its \<open>%Y-%m-%d\<close> text: on the dates a pandas Timestamp
  can hold (years 1677 to 2262) \<open>strftime\<close> and \<open>strptime\<close> with that format are inverse
  to each other between dates and texts, and the TEXT columns of the database hold only
  texts that \<open>strftime\<close> wrote.
\<close>

datatype date = Date (year: nat) (month: nat) (day: nat)

record timestamp =
  ts_date :: date
  ts_nanos :: nat

definition strftime :: "timestamp \<Rightarrow> date" where
  "strftime t = ts_date t"

definition strptime :: "date \<Rightarrow> timestamp" where
  "strptime d = \<lparr>ts_date = d, ts_nanos = 0\<rparr>"

text \<open>A DataFrame: the row labels and the named numeric columns, in column order.\<close>

record dataframe =
  index :: "timestamp list"
  columns :: "(string \<times> fl list) list"

text \<open>\<open>DataFrame.empty\<close> is true when either axis has length 0.\<close>

definition df_empty :: "dataframe \<Rightarrow> bool" where
  "df_empty df = (index df = [] \<or> columns df = [])"

definition getitem :: "dataframe \<Rightarrow> string \<Rightarrow> error + fl list" where
  "getitem df name =
     (case map_of (columns df) name of None \<Rightarrow> Inl (KeyError name) | Some c \<Rightarrow> Inr c)"

text \<open>\<open>df[name] = series\<close> replaces the column in place, or appends a new last column.\<close>

definition setitem :: "dataframe \<Rightarrow> string \<Rightarrow> fl list \<Rightarrow> dataframe" where
  "setitem df name vals = df\<lparr>columns := AList.update name vals (columns df)\<rparr>"

text \<open>Every column of a frame has one cell per row, and column names are distinct.\<close>

definition wf_frame :: "dataframe \<Rightarrow> bool" where
  "wf_frame df =
     (distinct (map fst (columns df)) \<and>
      list_all (\<lambda>c. length (snd c) = length (index df)) (columns df))"

section \<open>The time-series store (database.py)\<close>

record bar =
  Open :: fl
  High :: fl
  Low :: fl
  Close :: fl
  Adj_Close :: fl
  Volume :: fl
  MA10 :: fl
  EMA12 :: fl
  EMA26 :: fl
  MACD :: fl
  MACD_Signal :: fl
  MACD_Hist :: fl

text \<open>
  The two tables as relations keyed by their primary keys, and the memo table of
  \<open>lru_cache(maxsize=1000)\<close> on \<open>get_ticker_last_updated\<close>, most recently used first.
\<close>

record stock_db =
  stocks :: "(date \<times> string) \<rightharpoonup> bar"
  metadata :: "string \<rightharpoonup> (date \<times> string)"
  cache :: "(string \<times> timestamp option) list"

definition init_db :: stock_db where
  "init_db = \<lparr>stocks = Map.empty, metadata = Map.empty, cache = []\<rparr>"

definition get_ticker_last_updated :: "string \<Rightarrow> stock_db \<Rightarrow> timestamp option \<times> stock_db" where
  "get_ticker_last_updated ticker db =
     (case map_of (cache db) ticker of
        Some r \<Rightarrow> (r, db\<lparr>cache := (ticker, r) # filter (\<lambda>e. fst e \<noteq> ticker) (cache db)\<rparr>)
      | None \<Rightarrow>
          (let r = (case metadata db ticker of
                      None \<Rightarrow> None
                    | Some result \<Rightarrow> Some (strptime (fst result)))
           in (r, db\<lparr>cache := take 1000 ((ticker, r) # cache db)\<rparr>)))"

definition add_indicators :: "dataframe \<Rightarrow> error + dataframe" where
  "add_indicators data =
     ebind (getitem data ''Close'') (\<lambda>c1.
     let data1 = setitem data ''MA10'' (rolling_apply fmean 10 c1) in
     ebind (getitem data1 ''Close'') (\<lambda>c2.
     let data2 = setitem data1 ''EMA12'' (ewm_mean 12 c2) in
     ebind (getitem data2 ''Close'') (\<lambda>c3.
     let data3 = setitem data2 ''EMA26'' (ewm_mean 26 c3) in
     ebind (getitem data3 ''EMA12'') (\<lambda>e12.
     ebind (getitem data3 ''EMA26'') (\<lambda>e26.
     let data4 = setitem data3 ''MACD'' (map2 fsub e12 e26) in
     ebind (getitem data4 ''MACD'') (\<lambda>m1.
     let data5 = setitem data4 ''MACD_Signal'' (ewm_mean 9 m1) in
     ebind (getitem data5 ''MACD'') (\<lambda>m2.
     ebind (getitem data5 ''MACD_Signal'') (\<lambda>s.
     Inr (setitem data5 ''MACD_Hist'' (map2 fsub m2 s))))))))))"

text \<open>The list comprehension over \<open>data.iterrows()\<close>: one record per row.\<close>

definition records_of :: "string \<Rightarrow> dataframe \<Rightarrow> error + ((date \<times> string) \<times> bar) list" where
  "records_of ticker data =
     ebind (getitem data ''Open'') (\<lambda>c_open.
     ebind (getitem data ''High'') (\<lambda>c_high.
     ebind (getitem data ''Low'') (\<lambda>c_low.
     ebind (getitem data ''Close'') (\<lambda>c_close.
     ebind (getitem data ''Adj Close'') (\<lambda>c_adj.
     ebind (getitem data ''Volume'') (\<lambda>c_vol.
     ebind (getitem data ''MA10'') (\<lambda>c_ma10.
     ebind (getitem data ''EMA12'') (\<lambda>c_ema12.
     ebind (getitem data ''EMA26'') (\<lambda>c_ema26.
     ebind (getitem data ''MACD'') (\<lambda>c_macd.
     ebind (getitem data ''MACD_Signal'') (\<lambda>c_sig.
     ebind (getitem data ''MACD_Hist'') (\<lambda>c_hist.
     Inr (map (\<lambda>i. ((strftime (index data ! i), ticker),
                     \<lparr>Open = c_open ! i, High = c_high ! i, Low = c_low ! i,
                      Close = c_close ! i, Adj_Close = c_adj ! i, Volume = c_vol ! i,
                      MA10 = c_ma10 ! i, EMA12 = c_ema12 ! i, EMA26 = c_ema26 ! i,
                      MACD = c_macd ! i, MACD_Signal = c_sig ! i,
                      MACD_Hist = c_hist ! i\<rparr>))
              [0..<length (index data)])))))))))))))"

text \<open>\<open>executemany\<close> of INSERT OR REPLACE: each record replaces the row of its key.\<close>

definition insert_or_replace :: "('k \<times> 'v) \<Rightarrow> ('k \<rightharpoonup> 'v) \<Rightarrow> ('k \<rightharpoonup> 'v)" where
  "insert_or_replace r tbl = tbl(fst r \<mapsto> snd r)"

definition executemany :: "('k \<times> 'v) list \<Rightarrow> ('k \<rightharpoonup> 'v) \<Rightarrow> ('k \<rightharpoonup> 'v)" where
  "executemany rs tbl = fold insert_or_replace rs tbl"

text \<open>
  \<open>update_ticker_data\<close> returns its result (or the exception it raises), the caller's
  frame as the call leaves it, and the database. An exception leaves the \<open>with\<close> block of
  the connection, which rolls the transaction back.
\<close>

definition update_ticker_data ::
  "string \<Rightarrow> dataframe \<Rightarrow> string \<Rightarrow> stock_db \<Rightarrow> (error + bool) \<times> dataframe \<times> stock_db" where
  "update_ticker_data ticker data data_source db =
     (if df_empty data then (Inr False, data, db)
      else case add_indicators data of
        Inl e \<Rightarrow> (Inl e, data, db)
      | Inr data' \<Rightarrow>
          (case records_of ticker data' of
             Inl e \<Rightarrow> (Inl e, data', db)
           | Inr records \<Rightarrow>
               (let last_date = strftime (last (index data')) in
                (Inr True, data',
                 db\<lparr>stocks := executemany records (stocks db),
                    metadata := (metadata db)(ticker \<mapsto> (last_date, data_source))\<rparr>))))"

text \<open>
  The frame \<open>add_indicators\<close> leaves when the frame has a Close column \<open>c\<close>
  (lemma \<open>add_indicators_conv\<close>), and the names of the columns it writes.
\<close>

definition indicators_of :: "dataframe \<Rightarrow> fl list \<Rightarrow> dataframe" where
  "indicators_of data c =
    (let e12 = ewm_mean 12 c; e26 = ewm_mean 26 c; m = map2 fsub e12 e26; s = ewm_mean 9 m in
     setitem (setitem (setitem (setitem (setitem (setitem data ''MA10'' (rolling_apply fmean 10 c))
       ''EMA12'' e12) ''EMA26'' e26) ''MACD'' m) ''MACD_Signal'' s) ''MACD_Hist'' (map2 fsub m s))"


text \<open>A two-bar series as a provider returns it, ending on 2024-01-05.\<close>

definition example_bars :: dataframe where
  "example_bars =
     \<lparr>index = [\<lparr>ts_date = Date 2024 1 4, ts_nanos = 0\<rparr>, \<lparr>ts_date = Date 2024 1 5, ts_nanos = 0\<rparr>],
      columns = [(''Open'', [Fin 10, Fin 11]), (''High'', [Fin 12, Fin 13]),
                 (''Low'', [Fin 9, Fin 10]), (''Close'', [Fin 11, Fin 12]),
                 (''Adj Close'', [Fin 11, Fin 12]), (''Volume'', [Fin 1000, Fin 1200])]\<rparr>"


section \<open>The multi-source fetcher (data_fetcher.py)\<close>

text \<open>
  The two providers are outside the program. A call to one of them raises or returns a
  frame; what the call made during attempt \<open>a\<close> of one \<open>fetch_data\<close> does is a
  parameter of the model (each provider is called at most once per attempt).
\<close>

datatype 'a outcome = Raises | Returns 'a

record providers =
  yf_download :: "nat \<Rightarrow> dataframe outcome"
  get_daily_adjusted :: "nat \<Rightarrow> dataframe outcome"

record data_fetcher =
  alpha_vantage_key :: "string option"
  source_priority :: "string list"
  source_stats :: "string \<rightharpoonup> int"

definition init_fetcher :: "string option \<Rightarrow> data_fetcher" where
  "init_fetcher key =
     \<lparr>alpha_vantage_key = key,
      source_priority = [''yfinance'', ''alpha_vantage''],
      source_stats = map_of (map (\<lambda>source. (source, 0)) [''yfinance'', ''alpha_vantage''])\<rparr>"

text \<open>The truth value of \<open>self.alpha_vantage_key\<close>: None and the empty string are false.\<close>

definition key_given :: "data_fetcher \<Rightarrow> bool" where
  "key_given f = (case alpha_vantage_key f of None \<Rightarrow> False | Some k \<Rightarrow> k \<noteq> [])"

definition fetch_yfinance :: "providers \<Rightarrow> nat \<Rightarrow> dataframe option" where
  "fetch_yfinance env attempt =
     (case yf_download env attempt of
        Raises \<Rightarrow> None
      | Returns data \<Rightarrow> (if \<not> df_empty data then Some data else None))"

definition rename :: "(string \<times> string) list \<Rightarrow> dataframe \<Rightarrow> dataframe" where
  "rename m df =
     df\<lparr>columns := map (\<lambda>c. ((case map_of m (fst c) of None \<Rightarrow> fst c | Some n \<Rightarrow> n), snd c))
                        (columns df)\<rparr>"

definition alpha_vantage_columns :: "(string \<times> string) list" where
  "alpha_vantage_columns =
     [(''1. open'', ''Open''), (''2. high'', ''High''), (''3. low'', ''Low''),
      (''4. close'', ''Close''), (''5. adjusted close'', ''Adj Close''),
      (''6. volume'', ''Volume'')]"

definition fetch_alpha_vantage :: "data_fetcher \<Rightarrow> providers \<Rightarrow> nat \<Rightarrow> dataframe option" where
  "fetch_alpha_vantage f env attempt =
     (if \<not> key_given f then None
      else case get_daily_adjusted env attempt of
        Raises \<Rightarrow> None
      | Returns d \<Rightarrow>
          (let data = rename alpha_vantage_columns d in
           if \<not> df_empty data then Some data else None))"

text \<open>
  The body of \<open>try\<close> for one source. The local variable \<open>data\<close> is \<open>None\<close> while it is
  unbound and keeps its value when neither branch assigns it. The result is the
  exception raised, \<open>Some\<close> of the value returned, or \<open>None\<close> when the body falls through.
\<close>

definition try_source ::
  "data_fetcher \<Rightarrow> providers \<Rightarrow> nat \<Rightarrow> string \<Rightarrow> dataframe option option \<Rightarrow>
     (error + (dataframe \<times> string) option) \<times> dataframe option option \<times> data_fetcher" where
  "try_source f env attempt source data =
     (let data' =
        (if source = ''yfinance'' then Some (fetch_yfinance env attempt)
         else if source = ''alpha_vantage'' \<and> key_given f
           then Some (fetch_alpha_vantage f env attempt)
         else data)
      in case data' of
           None \<Rightarrow> (Inl UnboundLocalError, data', f)
         | Some None \<Rightarrow> (Inr None, data', f)
         | Some (Some d) \<Rightarrow>
             (if df_empty d then (Inr None, data', f)
              else case source_stats f source of
                     None \<Rightarrow> (Inl (KeyError source), data', f)
                   | Some n \<Rightarrow>
                       (Inr (Some (d, source)), data',
                        f\<lparr>source_stats := (source_stats f)(source \<mapsto> n + 1)\<rparr>)))"

datatype 'a flow = Continue | Return 'a | Raise error

text \<open>
  The loop over the sources. An exception of the body is caught and logged, then
  \<open>time.sleep(delay * (attempt + 1))\<close> runs inside the handler; it raises ValueError
  for a negative length, and nothing catches that.
\<close>

fun sources_loop ::
  "data_fetcher \<Rightarrow> providers \<Rightarrow> int \<Rightarrow> nat \<Rightarrow> string list \<Rightarrow> dataframe option option \<Rightarrow>
     (dataframe \<times> string) flow \<times> dataframe option option \<times> data_fetcher" where
  "sources_loop f env delay attempt [] data = (Continue, data, f)"
| "sources_loop f env delay attempt (source # rest) data =
     (case try_source f env attempt source data of
        (Inr (Some ret), data', f') \<Rightarrow> (Return ret, data', f')
      | (Inr None, data', f') \<Rightarrow> sources_loop f' env delay attempt rest data'
      | (Inl e, data', f') \<Rightarrow>
          (if delay * (int attempt + 1) < 0 then (Raise ValueError, data', f')
           else sources_loop f' env delay attempt rest data'))"

fun attempts_loop ::
  "data_fetcher \<Rightarrow> providers \<Rightarrow> int \<Rightarrow> nat list \<Rightarrow> dataframe option option \<Rightarrow>
     (error + dataframe option \<times> string) \<times> data_fetcher" where
  "attempts_loop f env delay [] data = (Inr (None, ''failed''), f)"
| "attempts_loop f env delay (attempt # rest) data =
     (case sources_loop f env delay attempt (source_priority f) data of
        (Return ret, data', f') \<Rightarrow> (Inr (Some (fst ret), snd ret), f')
      | (Raise e, data', f') \<Rightarrow> (Inl e, f')
      | (Continue, data', f') \<Rightarrow> attempts_loop f' env delay rest data')"

text \<open>\<open>range(retries)\<close> is empty for \<open>retries \<le> 0\<close>.\<close>

definition fetch_data ::
  "data_fetcher \<Rightarrow> providers \<Rightarrow> int \<Rightarrow> int \<Rightarrow> (error + dataframe option \<times> string) \<times> data_fetcher" where
  "fetch_data f env retries delay = attempts_loop f env delay [0..<nat retries] None"

text \<open>
  What \<open>__init__\<close> establishes and \<open>fetch_data\<close> keeps: the fixed priority list, and a
  counter for each of its sources.
\<close>

definition fetcher_ok :: "data_fetcher \<Rightarrow> bool" where
  "fetcher_ok f =
     (source_priority f = [''yfinance'', ''alpha_vantage''] \<and>
      source_stats f ''yfinance'' \<noteq> None \<and> source_stats f ''alpha_vantage'' \<noteq> None)"

text \<open>A provider call that yields no data: an exception or an empty frame.\<close>

definition no_data :: "dataframe outcome \<Rightarrow> bool" where
  "no_data r = (case r of Raises \<Rightarrow> True | Returns d \<Rightarrow> df_empty d)"

text \<open>The fetcher after \<open>self.source_stats[source] += 1\<close>.\<close>

definition bump :: "data_fetcher \<Rightarrow> string \<Rightarrow> data_fetcher" where
  "bump f source = f\<lparr>source_stats := (source_stats f)(source \<mapsto> the (source_stats f source) + 1)\<rparr>"

text \<open>
  Two environments: one where yfinance raises and Alpha Vantage returns an empty frame on
  every attempt, and one where yfinance raises once and then returns two bars.
\<close>

definition providers_down :: providers where
  "providers_down = \<lparr>yf_download = (\<lambda>a. Raises),
                     get_daily_adjusted = (\<lambda>a. Returns \<lparr>index = [], columns = []\<rparr>)\<rparr>"

definition providers_up :: providers where
  "providers_up = \<lparr>yf_download = (\<lambda>a. if a = 0 then Raises else Returns example_bars),
                   get_daily_adjusted = (\<lambda>a. Raises)\<rparr>"

section \<open>The screener (screening_optimized.py)\<close>

text \<open>Arithmetic and comparisons of series, cell by cell.\<close>

definition series_div :: "fl list \<Rightarrow> fl list \<Rightarrow> fl list" where
  "series_div xs ys = map2 fdiv xs ys"

definition series_sub :: "fl list \<Rightarrow> fl list \<Rightarrow> fl list" where
  "series_sub xs ys = map2 fsub xs ys"

definition series_and :: "bool list \<Rightarrow> bool list \<Rightarrow> bool list" where
  "series_and xs ys = map2 (\<and>) xs ys"

text \<open>\<open>(q - 1) * 100\<close> on a series \<open>q\<close>.\<close>

definition percent_change :: "fl list \<Rightarrow> fl list" where
  "percent_change q = map (\<lambda>x. fmul (fsub x (Fin 1)) (Fin 100)) q"

definition breakout_of :: "fl list \<Rightarrow> fl list \<Rightarrow> bool list" where
  "breakout_of close recent_high =
     series_and (map2 fgt close (shift 1 recent_high))
                (map2 fle (shift 1 close) (shift 1 recent_high))"

text \<open>The local series of \<open>_analyze_stock\<close> that the mask and the result read.\<close>

record signals =
  s_close :: "fl list"
  s_volume :: "fl list"
  s_rise_22 :: "fl list"
  s_rise_67 :: "fl list"
  s_consolidation_range :: "fl list"
  s_adr :: "fl list"
  s_breakout :: "bool list"
  s_breakout_volume :: "bool list"

text \<open>
  Lines 78 to 93 of \<open>_analyze_stock\<close>, in order. \<open>vol_decline\<close> is computed (and may
  raise) but is not among the series that go on to the mask and the result.
\<close>

definition compute_signals :: "dataframe \<Rightarrow> int \<Rightarrow> int \<Rightarrow> error + signals" where
  "compute_signals data prior_days consol_days =
     ebind (getitem data ''Close'') (\<lambda>close.
     ebind (getitem data ''Volume'') (\<lambda>volume.
     ebind (getitem data ''High'') (\<lambda>high.
     ebind (getitem data ''Low'') (\<lambda>low.
     let rise_22 = percent_change (series_div close (shift 22 close));
         rise_67 = percent_change (series_div close (shift 67 close)) in
     ebind (rolling fmaxs consol_days close) (\<lambda>recent_high.
     ebind (rolling fmins consol_days close) (\<lambda>recent_low.
     let consolidation_range = percent_change (series_div recent_high recent_low) in
     ebind (rolling fmean consol_days volume) (\<lambda>vol_recent.
     ebind (rolling fmean prior_days (shift consol_days volume)) (\<lambda>vol_prior.
     let vol_decline = map2 flt vol_recent vol_prior;
         daily_range = series_div (series_sub high low) (shift 1 close) in
     ebind (rolling fmean prior_days daily_range) (\<lambda>adr_mean.
     let adr = map (\<lambda>x. fmul x (Fin 100)) adr_mean;
         breakout = breakout_of close recent_high in
     ebind (rolling fmean 10 volume) (\<lambda>vol_mean_10.
     let breakout_volume = map2 fgt volume (map (\<lambda>x. fmul x (Fin (3 / 2))) vol_mean_10) in
     Inr \<lparr>s_close = close, s_volume = volume, s_rise_22 = rise_22, s_rise_67 = rise_67,
          s_consolidation_range = consolidation_range, s_adr = adr,
          s_breakout = breakout, s_breakout_volume = breakout_volume\<rparr>))))))))))"

text \<open>The same lines with line 89, the computation of \<open>vol_decline\<close>, removed.\<close>

definition compute_signals_without_vol_decline :: "dataframe \<Rightarrow> int \<Rightarrow> int \<Rightarrow> error + signals" where
  "compute_signals_without_vol_decline data prior_days consol_days =
     ebind (getitem data ''Close'') (\<lambda>close.
     ebind (getitem data ''Volume'') (\<lambda>volume.
     ebind (getitem data ''High'') (\<lambda>high.
     ebind (getitem data ''Low'') (\<lambda>low.
     let rise_22 = percent_change (series_div close (shift 22 close));
         rise_67 = percent_change (series_div close (shift 67 close)) in
     ebind (rolling fmaxs consol_days close) (\<lambda>recent_high.
     ebind (rolling fmins consol_days close) (\<lambda>recent_low.
     let consolidation_range = percent_change (series_div recent_high recent_low);
         daily_range = series_div (series_sub high low) (shift 1 close) in
     ebind (rolling fmean prior_days daily_range) (\<lambda>adr_mean.
     let adr = map (\<lambda>x. fmul x (Fin 100)) adr_mean;
         breakout = breakout_of close recent_high in
     ebind (rolling fmean 10 volume) (\<lambda>vol_mean_10.
     let breakout_volume = map2 fgt volume (map (\<lambda>x. fmul x (Fin (3 / 2))) vol_mean_10) in
     Inr \<lparr>s_close = close, s_volume = volume, s_rise_22 = rise_22, s_rise_67 = rise_67,
          s_consolidation_range = consolidation_range, s_adr = adr,
          s_breakout = breakout, s_breakout_volume = breakout_volume\<rparr>))))))))"

text \<open>Lines 96 to 101: the filter mask.\<close>

definition mask_of :: "signals \<Rightarrow> fl \<Rightarrow> fl \<Rightarrow> fl \<Rightarrow> fl \<Rightarrow> bool list" where
  "mask_of s min_rise_22 min_rise_67 max_range min_adr =
     series_and
       (series_and
          (series_and (map (\<lambda>x. fge x min_rise_22) (s_rise_22 s))
                      (map (\<lambda>x. fge x min_rise_67) (s_rise_67 s)))
          (map (\<lambda>x. fle x max_range) (s_consolidation_range s)))
       (map (\<lambda>x. fge x min_adr) (s_adr s))"

text \<open>One row of the result frame, with the columns of the source in order.\<close>

record screen_result =
  r_Ticker :: string
  r_Date :: timestamp
  r_Price :: fl
  r_Prior_Rise_22 :: fl
  r_Prior_Rise_67 :: fl
  r_Consolidation_Range :: fl
  r_ADR :: fl
  r_Breakout :: bool
  r_Breakout_Volume :: bool
  r_Volume :: fl

definition result_row :: "string \<Rightarrow> dataframe \<Rightarrow> signals \<Rightarrow> nat \<Rightarrow> screen_result" where
  "result_row ticker data s i =
     \<lparr>r_Ticker = ticker, r_Date = index data ! i, r_Price = s_close s ! i,
      r_Prior_Rise_22 = s_rise_22 s ! i, r_Prior_Rise_67 = s_rise_67 s ! i,
      r_Consolidation_Range = s_consolidation_range s ! i, r_ADR = s_adr s ! i,
      r_Breakout = s_breakout s ! i, r_Breakout_Volume = s_breakout_volume s ! i,
      r_Volume = s_volume s ! i\<rparr>"

text \<open>Indexing with a boolean series keeps the positions where it is true.\<close>

definition boolean_index :: "bool list \<Rightarrow> nat list" where
  "boolean_index msk = filter (\<lambda>i. msk ! i) [0..<length msk]"

text \<open>Lines 103 to 121: nothing when no row matches, else the rows where the mask holds.\<close>

definition select_rows ::
  "string \<Rightarrow> dataframe \<Rightarrow> signals \<Rightarrow> bool list \<Rightarrow> screen_result list option" where
  "select_rows ticker data s msk =
     (if \<not> list_ex (\<lambda>b. b) msk then None
      else Some (map (result_row ticker data s) (boolean_index msk)))"

definition analyze_stock_body ::
  "string \<Rightarrow> dataframe \<Rightarrow> int \<Rightarrow> int \<Rightarrow> fl \<Rightarrow> fl \<Rightarrow> fl \<Rightarrow> fl \<Rightarrow>
     error + screen_result list option" where
  "analyze_stock_body ticker data prior_days consol_days min_rise_22 min_rise_67 max_range min_adr =
     (if int (length (index data)) < prior_days + consol_days + 30 then Inr None
      else ebind (compute_signals data prior_days consol_days) (\<lambda>s.
        Inr (select_rows ticker data s
               (mask_of s min_rise_22 min_rise_67 max_range min_adr))))"

text \<open>\<open>except Exception\<close> around the whole body: any exception gives None.\<close>

definition analyze_stock ::
  "string \<Rightarrow> dataframe \<Rightarrow> int \<Rightarrow> int \<Rightarrow> fl \<Rightarrow> fl \<Rightarrow> fl \<Rightarrow> fl \<Rightarrow> screen_result list option" where
  "analyze_stock ticker data prior_days consol_days min_rise_22 min_rise_67 max_range min_adr =
     (case analyze_stock_body ticker data prior_days consol_days
             min_rise_22 min_rise_67 max_range min_adr of
        Inl e \<Rightarrow> None
      | Inr result \<Rightarrow> result)"

definition analyze_stock_without_vol_decline ::
  "string \<Rightarrow> dataframe \<Rightarrow> int \<Rightarrow> int \<Rightarrow> fl \<Rightarrow> fl \<Rightarrow> fl \<Rightarrow> fl \<Rightarrow> screen_result list option" where
  "analyze_stock_without_vol_decline ticker data prior_days consol_days
       min_rise_22 min_rise_67 max_range min_adr =
     (if int (length (index data)) < prior_days + consol_days + 30 then None
      else case compute_signals_without_vol_decline data prior_days consol_days of
        Inl e \<Rightarrow> None
      | Inr s \<Rightarrow> select_rows ticker data s
                 (mask_of s min_rise_22 min_rise_67 max_range min_adr))"

text \<open>
  \<open>screen_stocks\<close>, from the dictionary \<open>stock_data\<close> that \<open>fetch_stock_data\<close> returned
  (one entry per ticker with rows in the date range, in insertion order). The results are
  collected in submission order; \<open>ThreadPoolExecutor\<close> raises ValueError unless
  \<open>max_workers\<close> is positive.
\<close>

definition screen_stocks ::
  "(string \<times> dataframe) list \<Rightarrow> int \<Rightarrow> int \<Rightarrow> fl \<Rightarrow> fl \<Rightarrow> fl \<Rightarrow> fl \<Rightarrow> int \<Rightarrow>
     error + screen_result list" where
  "screen_stocks stock_data prior_days consol_days min_rise_22 min_rise_67 max_range min_adr
       max_workers =
     (if max_workers \<le> 0 then Inl ValueError
      else Inr (concat (List.map_filter
                  (\<lambda>item. analyze_stock (fst item) (snd item) prior_days consol_days
                             min_rise_22 min_rise_67 max_range min_adr)
                  stock_data)))"

text \<open>
  A 68-bar history with Close 1, High 2, Low 1 and Volume 1000 on every bar: the shortest
  on which the 67-day rise is defined, on its last bar.
\<close>

definition example_history :: dataframe where
  "example_history =
     \<lparr>index = map (\<lambda>i. \<lparr>ts_date = Date 2024 1 1, ts_nanos = i\<rparr>) [0..<68],
      columns = [(''Open'', replicate 68 (Fin 1)), (''High'', replicate 68 (Fin 2)),
                 (''Low'', replicate 68 (Fin 1)), (''Close'', replicate 68 (Fin 1)),
                 (''Volume'', replicate 68 (Fin 1000))]\<rparr>"

text \<open>
  The series \<open>compute_signals\<close> yields on that history with both windows 1 (lemma
  \<open>example_compute\<close>), and a dictionary holding it beside a two-bar history.
\<close>

definition example_signals :: signals where
  "example_signals =
     \<lparr>s_close = replicate 68 (Fin 1), s_volume = replicate 68 (Fin 1000),
      s_rise_22 = replicate 22 NaN @ replicate 46 (Fin 0),
      s_rise_67 = replicate 67 NaN @ [Fin 0],
      s_consolidation_range = replicate 68 (Fin 0),
      s_adr = NaN # replicate 67 (Fin 100),
      s_breakout = replicate 68 False, s_breakout_volume = replicate 68 False\<rparr>"

definition example_stock_data :: "(string \<times> dataframe) list" where
  "example_stock_data = [(''AAPL'', example_bars), (''MSFT'', example_history)]"

section \<open>Properties of the store\<close>

text \<open>
  C7: \<open>update_ticker_data\<close> called with an empty bar series returns False and performs
  no write: the stocks table, the metadata table (and the caller's frame) are exactly as
  they were before the call.
\<close>

theorem update_empty_no_write:
  assumes "df_empty data"
  shows "update_ticker_data ticker data data_source db = (Inr False, data, db)"
  using assms by (simp add: update_ticker_data_def)

theorem update_empty_no_write_witness:
  "df_empty \<lparr>index = [], columns = [(''Close'', [])]\<rparr> \<and>
   update_ticker_data ''AAPL'' \<lparr>index = [], columns = [(''Close'', [])]\<rparr> ''yfinance'' init_db
     = (Inr False, \<lparr>index = [], columns = [(''Close'', [])]\<rparr>, init_db)"
proof -
  have e: "df_empty \<lparr>index = [], columns = [(''Close'', [])]\<rparr>"
    by (simp add: df_empty_def)
  show ?thesis
    using e update_empty_no_write [OF e, of "''AAPL''" "''yfinance''" init_db] by simp
qed

lemma getitem_setitem:
  "getitem (setitem df n v) m = (if m = n then Inr v else getitem df m)"
  by (simp add: getitem_def setitem_def update_conv')

lemma setitem_same: "getitem df n = Inr v \<Longrightarrow> setitem df n v = df"
  by (auto simp: getitem_def setitem_def update_triv split: option.splits)

lemma index_setitem: "index (setitem df n v) = index df"
  by (simp add: setitem_def)

lemma df_empty_setitem: "df_empty (setitem df n v) = (index df = [])"
  by (simp add: df_empty_def setitem_def)


lemma executemany_conv: "executemany rs tbl = tbl ++ map_of (rev rs)"
  unfolding executemany_def
  by (induction rs arbitrary: tbl) (simp_all add: insert_or_replace_def)

lemma executemany_twice: "executemany rs (executemany rs tbl) = executemany rs tbl"
  by (rule ext) (simp add: executemany_conv map_add_def split: option.splits)

lemma add_indicators_conv:
  "add_indicators data =
     (case getitem data ''Close'' of Inl e \<Rightarrow> Inl e | Inr c \<Rightarrow> Inr (indicators_of data c))"
  by (simp add: add_indicators_def indicators_of_def ebind_def getitem_setitem Let_def split: sum.splits)

lemma add_indicators_fix:
  assumes "add_indicators data = Inr data'"
  shows "add_indicators data' = Inr data'"
proof -
  from assms obtain c where c: "getitem data ''Close'' = Inr c"
    and d: "data' = indicators_of data c"
    by (auto simp: add_indicators_conv split: sum.splits)
  have c': "getitem data' ''Close'' = Inr c"
    by (simp add: d indicators_of_def Let_def getitem_setitem c)
  have "indicators_of data' c = data'"
    unfolding d indicators_of_def Let_def
    by (simp add: setitem_same getitem_setitem)
  then show ?thesis by (simp add: add_indicators_conv c')
qed

lemma df_empty_indicators: "add_indicators data = Inr data' \<Longrightarrow> df_empty data' = (index data = [])"
  by (auto simp: add_indicators_conv indicators_of_def Let_def df_empty_setitem index_setitem
      split: sum.splits)

lemma index_indicators: "add_indicators data = Inr data' \<Longrightarrow> index data' = index data"
  by (auto simp: add_indicators_conv indicators_of_def Let_def index_setitem split: sum.splits)

lemma update_again:
  assumes "update_ticker_data t d s db = (r, d1, db1)"
  shows "snd (snd (update_ticker_data t d s db1)) = db1"
    and "snd (snd (update_ticker_data t d1 s db1)) = db1"
proof -
  show "snd (snd (update_ticker_data t d s db1)) = db1"
    using assms
    by (auto simp: update_ticker_data_def Let_def executemany_twice split: if_splits sum.splits)
  show "snd (snd (update_ticker_data t d1 s db1)) = db1"
  proof (cases "df_empty d")
    case True
    with assms show ?thesis by (auto simp: update_ticker_data_def)
  next
    case ne: False
    show ?thesis
    proof (cases "add_indicators d")
      case (Inl e)
      with ne assms show ?thesis by (auto simp: update_ticker_data_def)
    next
      case (Inr d')
      have fp: "add_indicators d' = Inr d'" by (rule add_indicators_fix [OF Inr])
      have ne': "\<not> df_empty d'"
        using ne df_empty_indicators [OF Inr] by (simp add: df_empty_def)
      show ?thesis
        using assms ne ne' Inr fp
        by (auto simp: update_ticker_data_def Let_def executemany_twice split: sum.splits)
    qed
  qed
qed

text \<open>
  C2: \<open>update_ticker_data\<close> is idempotent on storage. Applying it a second time with
  the same series and source (passed again as it was, \<open>db2\<close>, or as the first call
  left the caller's frame, \<open>db3\<close>) leaves the database, its stocks and metadata tables
  included, exactly as the first application left it: every (Date, Ticker) key holds one
  row, which the second call replaces by an equal one.
\<close>

theorem update_ticker_data_idempotent:
  "let r1 = update_ticker_data ticker data source db;
       data1 = fst (snd r1); db1 = snd (snd r1);
       db2 = snd (snd (update_ticker_data ticker data source db1));
       db3 = snd (snd (update_ticker_data ticker data1 source db1))
   in db2 = db1 \<and> db3 = db1"
proof -
  obtain r d1 db1 where u: "update_ticker_data ticker data source db = (r, d1, db1)"
    by (cases "update_ticker_data ticker data source db") auto
  show ?thesis
    using update_again [OF u] by (simp add: u Let_def)
qed


lemma getitem_Inr_iff: "(\<exists>c. getitem df n = Inr c) = (n \<in> fst ` set (columns df))"
proof -
  have "(\<exists>c. getitem df n = Inr c) = (map_of (columns df) n \<noteq> None)"
    by (auto simp: getitem_def split: option.splits)
  then show ?thesis by (simp add: map_of_eq_None_iff)
qed





lemma get_cached:
  "map_of (cache db) ticker = Some r \<Longrightarrow> fst (get_ticker_last_updated ticker db) = r"
  by (simp add: get_ticker_last_updated_def)

lemma get_uncached:
  "map_of (cache db) ticker = None \<Longrightarrow>
   fst (get_ticker_last_updated ticker db) = map_option (strptime \<circ> fst) (metadata db ticker)"
  by (simp add: get_ticker_last_updated_def Let_def split: option.splits)

lemma cache_after_get:
  "map_of (cache (snd (get_ticker_last_updated ticker db))) ticker
     = Some (fst (get_ticker_last_updated ticker db))"
  by (simp add: get_ticker_last_updated_def Let_def split: option.splits)

lemma update_success:
  assumes "update_ticker_data ticker data source db = (Inr True, data', db')"
  shows "metadata db' ticker = Some (strftime (last (index data)), source)"
    and "cache db' = cache db"
  using assms
  by (auto simp: update_ticker_data_def Let_def index_indicators split: if_splits sum.splits)

lemma fresh_read_after_update:
  assumes "map_of (cache db) ticker = None"
    and "update_ticker_data ticker data source db = (Inr True, data', db')"
  shows "fst (get_ticker_last_updated ticker db') = Some (strptime (strftime (last (index data))))"
  using assms update_success [OF assms(2)] by (simp add: get_uncached)

lemma stale_read_after_update:
  assumes "get_ticker_last_updated ticker db = (r0, db1)"
    and "update_ticker_data ticker data source db1 = (Inr True, data', db2)"
  shows "fst (get_ticker_last_updated ticker db2) = r0"
proof -
  have "map_of (cache db1) ticker = Some r0"
    using cache_after_get [of ticker db] assms(1) by simp
  then show ?thesis
    using update_success(2) [OF assms(2)] by (simp add: get_cached)
qed

lemma example_bars_nonempty: "\<not> df_empty example_bars"
  by (simp add: example_bars_def df_empty_def)


lemma update_returns_True:
  assumes "\<not> df_empty data"
    and "set [''Open'', ''High'', ''Low'', ''Close'', ''Adj Close'', ''Volume''] \<subseteq> fst ` set (columns data)"
  shows "fst (update_ticker_data ticker data source db) = Inr True"
proof -
  have g: "\<And>n. n \<in> fst ` set (columns data) \<Longrightarrow> \<exists>c. getitem data n = Inr c"
    using getitem_Inr_iff by blast
  obtain c where c: "getitem data ''Close'' = Inr c" using g assms(2) by auto
  obtain c1 where c1: "getitem data ''Open'' = Inr c1" using g assms(2) by auto
  obtain c2 where c2: "getitem data ''High'' = Inr c2" using g assms(2) by auto
  obtain c3 where c3: "getitem data ''Low'' = Inr c3" using g assms(2) by auto
  obtain c4 where c4: "getitem data ''Adj Close'' = Inr c4" using g assms(2) by auto
  obtain c5 where c5: "getitem data ''Volume'' = Inr c5" using g assms(2) by auto
  have "\<exists>rs. records_of ticker (indicators_of data c) = Inr rs"
    by (simp add: records_of_def indicators_of_def Let_def ebind_def getitem_setitem c c1 c2 c3 c4 c5)
  then show ?thesis
    using assms(1) by (auto simp: update_ticker_data_def add_indicators_conv c Let_def)
qed

text \<open>
  C1: after a successful \<open>update_ticker_data\<close>, \<open>get_ticker_last_updated\<close>
  should return the date of the last bar, also when it had been called before the update.
  The memo table is never invalidated, so the code does not: on a fresh database, a lookup
  of AAPL (which returns None), then an update whose last bar is dated 2024-01-05 (which
  returns True and writes that date to the metadata table), then a second lookup, gives
  None again and not 2024-01-05. Lemma \<open>stale_read_after_update\<close> is the general
  form, and \<open>fresh_read_after_update\<close> the behaviour when the ticker is not in the memo
  table.
\<close>

theorem last_updated_stale_after_update:
  "let g0 = get_ticker_last_updated ''AAPL'' init_db;
       u = update_ticker_data ''AAPL'' example_bars ''yfinance'' (snd g0);
       g1 = get_ticker_last_updated ''AAPL'' (snd (snd u))
   in fst g0 = None \<and> fst u = Inr True \<and>
      strftime (last (index example_bars)) = Date 2024 1 5 \<and>
      metadata (snd (snd u)) ''AAPL'' = Some (Date 2024 1 5, ''yfinance'') \<and>
      fst g1 = None \<and> fst g1 \<noteq> Some (strptime (Date 2024 1 5))"
proof -
  obtain r0 db1 where g0: "get_ticker_last_updated ''AAPL'' init_db = (r0, db1)"
    by (cases "get_ticker_last_updated ''AAPL'' init_db") auto
  have r0: "r0 = None"
    using g0 by (simp add: get_ticker_last_updated_def init_db_def)
  have t: "fst (update_ticker_data ''AAPL'' example_bars ''yfinance'' db1) = Inr True"
    by (rule update_returns_True [OF example_bars_nonempty]) (simp add: example_bars_def)
  then obtain d' db2 where u: "update_ticker_data ''AAPL'' example_bars ''yfinance'' db1 = (Inr True, d', db2)"
    by (cases "update_ticker_data ''AAPL'' example_bars ''yfinance'' db1") auto
  have l: "strftime (last (index example_bars)) = Date 2024 1 5"
    by (simp add: example_bars_def strftime_def)
  have m: "metadata db2 ''AAPL'' = Some (Date 2024 1 5, ''yfinance'')"
    using update_success(1) [OF u] l by simp
  have s: "fst (get_ticker_last_updated ''AAPL'' db2) = None"
    using stale_read_after_update [OF g0 u] r0 by simp
  show ?thesis
    by (simp add: g0 u Let_def r0 l m s)
qed




section \<open>Properties of the fetcher\<close>

lemma df_empty_rename: "df_empty (rename m d) = df_empty d"
  by (simp add: df_empty_def rename_def)

lemma fetch_yfinance_no_data: "no_data (yf_download env a) \<Longrightarrow> fetch_yfinance env a = None"
  by (auto simp: no_data_def fetch_yfinance_def split: outcome.splits)

lemma fetch_alpha_no_data: "no_data (get_daily_adjusted env a) \<Longrightarrow> fetch_alpha_vantage f env a = None"
  by (auto simp: no_data_def fetch_alpha_vantage_def df_empty_rename Let_def split: outcome.splits)

lemma fetch_yfinance_Some: "fetch_yfinance env a = Some d \<Longrightarrow> \<not> df_empty d"
  by (auto simp: fetch_yfinance_def split: outcome.splits if_splits)

lemma fetch_alpha_Some: "fetch_alpha_vantage f env a = Some d \<Longrightarrow> \<not> df_empty d \<and> key_given f"
  by (auto simp: fetch_alpha_vantage_def Let_def split: outcome.splits if_splits)

lemma one_attempt:
  assumes "fetcher_ok f"
  shows "sources_loop f env delay a (source_priority f) data =
     (case fetch_yfinance env a of
        Some d \<Rightarrow> (Return (d, ''yfinance''), Some (Some d), bump f ''yfinance'')
      | None \<Rightarrow>
         (case fetch_alpha_vantage f env a of
            Some d \<Rightarrow> (Return (d, ''alpha_vantage''), Some (Some d), bump f ''alpha_vantage'')
          | None \<Rightarrow> (Continue, Some None, f)))"
proof -
  from assms obtain n m where sp: "source_priority f = [''yfinance'', ''alpha_vantage'']"
    and n: "source_stats f ''yfinance'' = Some n" and m: "source_stats f ''alpha_vantage'' = Some m"
    by (auto simp: fetcher_ok_def)
  show ?thesis
  proof (cases "fetch_yfinance env a")
    case (Some d)
    then show ?thesis
      using fetch_yfinance_Some [OF Some]
      by (simp add: sp try_source_def n bump_def)
  next
    case None
    show ?thesis
    proof (cases "fetch_alpha_vantage f env a")
      case (Some d)
      then show ?thesis
        using fetch_alpha_Some [OF Some] None
        by (simp add: sp try_source_def n m bump_def)
    next
      case av: None
      then show ?thesis
        using None
        by (simp add: sp try_source_def n m bump_def)
    qed
  qed
qed

lemma fetcher_ok_bump: "fetcher_ok f \<Longrightarrow> fetcher_ok (bump f source)"
  by (simp add: fetcher_ok_def bump_def)

lemma fetcher_ok_init: "fetcher_ok (init_fetcher key)"
  by (simp add: fetcher_ok_def init_fetcher_def)

lemma attempts_fail:
  assumes "fetcher_ok f"
    and "\<forall>a \<in> set as. no_data (yf_download env a) \<and> no_data (get_daily_adjusted env a)"
  shows "attempts_loop f env delay as data = (Inr (None, ''failed''), f)"
  using assms(2)
proof (induction as arbitrary: data)
  case Nil
  show ?case by simp
next
  case (Cons a as)
  have "sources_loop f env delay a (source_priority f) data = (Continue, Some None, f)"
    using Cons.prems
    by (simp add: one_attempt [OF assms(1)] fetch_yfinance_no_data fetch_alpha_no_data)
  then show ?case using Cons by simp
qed

lemma attempts_result:
  assumes "fetcher_ok f"
  shows "\<exists>r. attempts_loop f env delay as data = (Inr r, if fst r = None then f else bump f (snd r)) \<and>
             (fst r = None \<longrightarrow> snd r = ''failed'') \<and>
             (fst r \<noteq> None \<longrightarrow> snd r \<in> {''yfinance'', ''alpha_vantage''})"
proof (induction as arbitrary: data)
  case Nil
  show ?case by simp
next
  case (Cons a as)
  show ?case
  proof (cases "fetch_yfinance env a")
    case (Some d)
    then show ?thesis by (simp add: one_attempt [OF assms])
  next
    case None
    show ?thesis
    proof (cases "fetch_alpha_vantage f env a")
      case (Some d)
      then show ?thesis using None by (simp add: one_attempt [OF assms])
    next
      case av: None
      then show ?thesis using None Cons.IH [of "Some None"] by (simp add: one_attempt [OF assms])
    qed
  qed
qed

lemma fetcher_ok_fetch_data:
  assumes "fetcher_ok f"
  shows "fetcher_ok (snd (fetch_data f env retries delay))"
proof -
  from attempts_result [OF assms, of env delay "[0..<nat retries]" None]
  obtain r where "fetch_data f env retries delay = (Inr r, if fst r = None then f else bump f (snd r))"
    unfolding fetch_data_def by blast
  then show ?thesis using assms by (simp add: fetcher_ok_bump)
qed

text \<open>
  C3: for a fetcher as \<open>__init__\<close> builds it and \<open>fetch_data\<close> keeps it, if every
  attempt against every source yields no data (an exception or an empty frame),
  \<open>fetch_data\<close> returns \<open>(None, "failed")\<close> and leaves the fetcher, its counters
  included, unchanged; a return with a frame increments the counter of the returned source
  by one and changes nothing else; and \<open>fetch_data\<close> never raises.
\<close>

theorem fetch_data_failure_and_counters:
  assumes "fetcher_ok f"
  shows "((\<forall>a < nat retries. no_data (yf_download env a) \<and> no_data (get_daily_adjusted env a)) \<longrightarrow>
            fetch_data f env retries delay = (Inr (None, ''failed''), f)) \<and>
         (\<forall>d source f'. fetch_data f env retries delay = (Inr (Some d, source), f') \<longrightarrow>
            (\<exists>n. source_stats f source = Some n \<and>
                 f' = f\<lparr>source_stats := (source_stats f)(source \<mapsto> n + 1)\<rparr>)) \<and>
         (\<exists>r. fst (fetch_data f env retries delay) = Inr r)"
proof (intro conjI allI impI)
  assume "\<forall>a < nat retries. no_data (yf_download env a) \<and> no_data (get_daily_adjusted env a)"
  then show "fetch_data f env retries delay = (Inr (None, ''failed''), f)"
    unfolding fetch_data_def by (intro attempts_fail [OF assms]) simp
next
  fix d source f'
  assume a: "fetch_data f env retries delay = (Inr (Some d, source), f')"
  from attempts_result [OF assms, of env delay "[0..<nat retries]" None]
  obtain r where r: "fetch_data f env retries delay = (Inr r, if fst r = None then f else bump f (snd r))"
    and s: "fst r \<noteq> None \<longrightarrow> snd r \<in> {''yfinance'', ''alpha_vantage''}"
    unfolding fetch_data_def by blast
  from a r have e: "r = (Some d, source)" and f': "f' = bump f source" by auto
  from s e have "source \<in> {''yfinance'', ''alpha_vantage''}" by simp
  then obtain n where n: "source_stats f source = Some n"
    using assms by (auto simp: fetcher_ok_def)
  show "\<exists>n. source_stats f source = Some n \<and>
                 f' = f\<lparr>source_stats := (source_stats f)(source \<mapsto> n + 1)\<rparr>"
    using n f' by (simp add: bump_def)
next
  from attempts_result [OF assms, of env delay "[0..<nat retries]" None]
  show "\<exists>r. fst (fetch_data f env retries delay) = Inr r"
    unfolding fetch_data_def by auto
qed

lemma fetch_up:
  "fetch_data (init_fetcher None) providers_up 3 5 =
     (Inr (Some example_bars, ''yfinance''),
      (init_fetcher None)\<lparr>source_stats := (source_stats (init_fetcher None))(''yfinance'' \<mapsto> 1)\<rparr>)"
proof -
  have y0: "fetch_yfinance providers_up 0 = None"
    by (simp add: fetch_yfinance_def providers_up_def)
  have y1: "\<And>a. a \<noteq> 0 \<Longrightarrow> fetch_yfinance providers_up a = Some example_bars"
    by (simp add: fetch_yfinance_def providers_up_def example_bars_nonempty)
  have a: "\<And>a. fetch_alpha_vantage (init_fetcher None) providers_up a = None"
    by (simp add: fetch_alpha_vantage_def key_given_def init_fetcher_def)
  have l: "[0..<nat 3] = [0, 1, 2]"
    by (simp add: upt_rec)
  have "fetch_data (init_fetcher None) providers_up 3 5
          = attempts_loop (init_fetcher None) providers_up 5 [0, 1, 2] None"
    unfolding fetch_data_def l ..
  also have "\<dots> = (Inr (Some example_bars, ''yfinance''), bump (init_fetcher None) ''yfinance'')"
    by (simp add: one_attempt [OF fetcher_ok_init] y0 y1 a)
  also have "bump (init_fetcher None) ''yfinance'' =
      (init_fetcher None)\<lparr>source_stats := (source_stats (init_fetcher None))(''yfinance'' \<mapsto> 1)\<rparr>"
    by (simp add: bump_def init_fetcher_def)
  finally show ?thesis .
qed

theorem fetch_data_failure_and_counters_witness:
  "fetcher_ok (init_fetcher None) \<and>
   no_data (yf_download providers_down 0) \<and> no_data (get_daily_adjusted providers_down 0) \<and>
   no_data (yf_download providers_down 1) \<and> no_data (get_daily_adjusted providers_down 1) \<and>
   no_data (yf_download providers_down 2) \<and> no_data (get_daily_adjusted providers_down 2) \<and>
   fetch_data (init_fetcher None) providers_down 3 5 = (Inr (None, ''failed''), init_fetcher None) \<and>
   fetch_data (init_fetcher None) providers_up 3 5 =
     (Inr (Some example_bars, ''yfinance''),
      (init_fetcher None)\<lparr>source_stats := (source_stats (init_fetcher None))(''yfinance'' \<mapsto> 1)\<rparr>) \<and>
   source_stats (init_fetcher None) ''yfinance'' = Some 0"
proof -
  have h: "\<forall>a < nat 3. no_data (yf_download providers_down a) \<and> no_data (get_daily_adjusted providers_down a)"
    by (simp add: no_data_def providers_down_def df_empty_def)
  have n: "\<And>a. no_data (yf_download providers_down a) \<and> no_data (get_daily_adjusted providers_down a)"
    by (simp add: no_data_def providers_down_def df_empty_def)
  have s: "source_stats (init_fetcher None) ''yfinance'' = Some 0"
    by (simp add: init_fetcher_def)
  show ?thesis
    using fetch_data_failure_and_counters [OF fetcher_ok_init, where retries = 3
        and env = providers_down and delay = 5 and key1 = None] h s n
      fetch_data_failure_and_counters [OF fetcher_ok_init, where retries = 3
        and env = providers_up and delay = 5 and key1 = None] fetch_up
      fetcher_ok_init [of None]
    by simp
qed

section \<open>Properties of the screener\<close>

lemma compute_signals_same:
  "compute_signals data prior_days consol_days
     = compute_signals_without_vol_decline data prior_days consol_days"
proof (cases "consol_days < 0 \<or> prior_days < 0")
  case True
  then show ?thesis
    by (auto simp: compute_signals_def compute_signals_without_vol_decline_def ebind_def
        rolling_def Let_def split: sum.splits)
next
  case False
  then show ?thesis
    by (auto simp: compute_signals_def compute_signals_without_vol_decline_def ebind_def
        rolling_def Let_def split: sum.splits)
qed

text \<open>
  C6: the \<open>vol_decline\<close> signal is computed but never used. For every ticker, frame,
  window lengths and thresholds, \<open>_analyze_stock\<close> returns the same result (the same
  selected dates and the same value in every column of every row, or None) as the function
  with the \<open>vol_decline\<close> line removed: the series enters neither the mask nor the
  result, and the line raises only where a later line raises as well.
\<close>

theorem vol_decline_unused:
  "analyze_stock ticker data prior_days consol_days min_rise_22 min_rise_67 max_range min_adr
     = analyze_stock_without_vol_decline ticker data prior_days consol_days
         min_rise_22 min_rise_67 max_range min_adr"
  by (simp add: analyze_stock_def analyze_stock_body_def analyze_stock_without_vol_decline_def
      compute_signals_same ebind_def split: sum.splits)

lemma fle_refl: "a \<noteq> NaN \<Longrightarrow> fle a a"
  by (cases a) simp_all

lemma fle_trans: "fle a b \<Longrightarrow> fle b c \<Longrightarrow> fle a c"
  by (cases a; cases b; cases c) simp_all

lemma fmax_bounds:
  assumes "a \<noteq> NaN" and "b \<noteq> NaN"
  shows "fle a (fmax a b)" and "fle b (fmax a b)" and "fmax a b \<noteq> NaN"
  using assms by (cases a; cases b; simp add: fmax_def)+

lemma fold_fmax_bounds:
  assumes "NaN \<notin> set xs" and "a \<noteq> NaN"
  shows "fle a (fold (\<lambda>b a. fmax a b) xs a) \<and>
         (\<forall>x \<in> set xs. fle x (fold (\<lambda>b a. fmax a b) xs a))"
  using assms
proof (induction xs arbitrary: a)
  case Nil
  then show ?case by (simp add: fle_refl)
next
  case (Cons y ys)
  have y: "y \<noteq> NaN" and ys: "NaN \<notin> set ys" using Cons.prems(1) by auto
  have m: "fmax a y \<noteq> NaN" by (rule fmax_bounds(3) [OF Cons.prems(2) y])
  from Cons.IH [OF ys m]
  have ih: "fle (fmax a y) (fold (\<lambda>b a. fmax a b) ys (fmax a y))"
    and ih2: "\<forall>x \<in> set ys. fle x (fold (\<lambda>b a. fmax a b) ys (fmax a y))"
    by auto
  have "fle a (fold (\<lambda>b a. fmax a b) ys (fmax a y))"
    by (rule fle_trans [OF fmax_bounds(1) [OF Cons.prems(2) y] ih])
  moreover have "fle y (fold (\<lambda>b a. fmax a b) ys (fmax a y))"
    by (rule fle_trans [OF fmax_bounds(2) [OF Cons.prems(2) y] ih])
  ultimately show ?case using ih2 by simp
qed

lemma fmaxs_ge: "NaN \<notin> set ws \<Longrightarrow> x \<in> set ws \<Longrightarrow> fle x (fmaxs ws)"
proof (cases ws)
  case Nil
  assume "x \<in> set ws" with Nil show ?thesis by simp
next
  case (Cons a as)
  assume n: "NaN \<notin> set ws" and x: "x \<in> set ws"
  from n Cons have "NaN \<notin> set as" "a \<noteq> NaN" by auto
  from fold_fmax_bounds [OF this] x Cons show ?thesis by auto
qed

lemma length_prep_values: "length (prep_values xs) = length xs"
  by (simp add: prep_values_def)

lemma prep_values_nth:
  "j < length xs \<Longrightarrow> prep_values xs ! j \<noteq> NaN \<Longrightarrow> prep_values xs ! j = xs ! j"
  by (auto simp: prep_values_def split: if_splits)

lemma length_rolling_apply: "length (rolling_apply agg w xs) = length xs"
  by (simp add: rolling_apply_def Let_def length_prep_values)

lemma length_shift: "length (shift n xs) = length xs"
  by (auto simp: shift_def)

lemma shift_1_nth:
  "i < length xs \<Longrightarrow> shift 1 xs ! i = (case i of 0 \<Rightarrow> NaN | Suc j \<Rightarrow> xs ! j)"
  by (cases i) (simp_all add: shift_def)

lemma window_last:
  assumes "j < length xs" and "0 < w" and "length (window w j xs) = w"
  shows "xs ! j \<in> set (window w j xs)"
proof -
  from assms have le: "w \<le> Suc j" by (auto simp: window_def)
  have "window w j xs ! (w - 1) = xs ! j"
    using assms le by (simp add: window_def)
  moreover have "w - 1 < length (window w j xs)" using assms by simp
  ultimately show ?thesis by (metis nth_mem)
qed

lemma rolling_max_ge:
  assumes "j < length xs" and "rolling_apply fmaxs w xs ! j \<noteq> NaN"
  shows "fle (xs ! j) (rolling_apply fmaxs w xs ! j)"
proof -
  let ?vs = "prep_values xs"
  let ?ws = "window w j ?vs"
  have j: "j < length ?vs" using assms(1) by (simp add: length_prep_values)
  from assms have w: "w \<noteq> 0" and full: "\<not> length (filter (\<lambda>v. v \<noteq> NaN) ?ws) < w"
    and r: "rolling_apply fmaxs w xs ! j = fmaxs ?ws"
    by (auto simp: rolling_apply_def Let_def length_prep_values split: if_splits)
  have le: "length ?ws \<le> w" by (simp add: window_def)
  have fl: "length (filter (\<lambda>v. v \<noteq> NaN) ?ws) \<le> length ?ws" by simp
  have eq: "length (filter (\<lambda>v. v \<noteq> NaN) ?ws) = length ?ws"
    using full le fl by linarith
  have len: "length ?ws = w"
    using full le fl by linarith
  from eq have "filter (\<lambda>v. v \<noteq> NaN) ?ws = ?ws"
    by (metis length_filter_less linorder_neq_iff filter_True)
  then have nonan: "NaN \<notin> set ?ws"
    by (auto simp: filter_id_conv)
  have m: "?vs ! j \<in> set ?ws" using window_last [OF j _ len] w by simp
  with nonan have "?vs ! j \<noteq> NaN" by auto
  then have "?vs ! j = xs ! j" by (rule prep_values_nth [OF assms(1)])
  with fmaxs_ge [OF nonan m] r show ?thesis by simp
qed

text \<open>
  C9: the second conjunct of the breakout flag is redundant. With \<open>recent_high\<close> the
  rolling maximum of \<open>close\<close> over \<open>consol_days\<close> rows, at every row where
  \<open>recent_high.shift(1)\<close> is defined (not NaN) the previous close is at most that
  value, since it is the last cell of the window the maximum is taken over; hence
  \<open>breakout\<close> equals \<open>close > recent_high.shift(1)\<close> row by row (where the shifted
  maximum is NaN both sides are false).
\<close>

theorem breakout_second_conjunct_redundant:
  assumes "rolling fmaxs consol_days close = Inr recent_high"
  shows "(\<forall>i < length close. shift 1 recent_high ! i \<noteq> NaN \<longrightarrow>
            fle (shift 1 close ! i) (shift 1 recent_high ! i)) \<and>
         breakout_of close recent_high = map2 fgt close (shift 1 recent_high)"
proof -
  from assms have rh: "recent_high = rolling_apply fmaxs (nat consol_days) close"
    by (auto simp: rolling_def split: if_splits)
  have len: "length recent_high = length close" by (simp add: rh length_rolling_apply)
  have le: "\<And>i. i < length close \<Longrightarrow> shift 1 recent_high ! i \<noteq> NaN \<Longrightarrow>
            fle (shift 1 close ! i) (shift 1 recent_high ! i)"
  proof -
    fix i assume i: "i < length close" and d: "shift 1 recent_high ! i \<noteq> NaN"
    show "fle (shift 1 close ! i) (shift 1 recent_high ! i)"
    proof (cases i)
      case 0
      with i d len show ?thesis by (simp add: shift_1_nth)
    next
      case (Suc j)
      with i have j: "j < length close" by simp
      from d Suc i len have "recent_high ! j \<noteq> NaN" by (simp add: shift_1_nth)
      then have "fle (close ! j) (recent_high ! j)"
        unfolding rh by (rule rolling_max_ge [OF j])
      with Suc i len show ?thesis by (simp add: shift_1_nth)
    qed
  qed
  have "breakout_of close recent_high = map2 fgt close (shift 1 recent_high)"
  proof (rule nth_equalityI)
    show "length (breakout_of close recent_high) = length (map2 fgt close (shift 1 recent_high))"
      by (simp add: breakout_of_def series_and_def length_shift len)
  next
    fix i assume "i < length (breakout_of close recent_high)"
    then have i: "i < length close"
      by (simp add: breakout_of_def series_and_def length_shift len)
    have "fgt (close ! i) (shift 1 recent_high ! i) \<Longrightarrow> fle (shift 1 close ! i) (shift 1 recent_high ! i)"
    proof -
      assume g: "fgt (close ! i) (shift 1 recent_high ! i)"
      then have "shift 1 recent_high ! i \<noteq> NaN"
        by (auto simp: fgt_def)
      then show ?thesis by (rule le [OF i])
    qed
    then show "breakout_of close recent_high ! i = map2 fgt close (shift 1 recent_high) ! i"
      using i by (auto simp: breakout_of_def series_and_def length_shift len)
  qed
  with le show ?thesis by blast
qed

lemma boolean_index_iff: "i \<in> set (boolean_index m) \<longleftrightarrow> i < length m \<and> m ! i"
  by (auto simp: boolean_index_def)

lemma boolean_index_Nil: "boolean_index m = [] \<longleftrightarrow> \<not> list_ex (\<lambda>b. b) m"
proof -
  have "boolean_index m = [] \<longleftrightarrow> (\<forall>i < length m. \<not> m ! i)"
    by (auto simp: boolean_index_def filter_empty_conv)
  also have "\<dots> \<longleftrightarrow> \<not> list_ex (\<lambda>b. b) m"
    by (auto simp: list_ex_iff in_set_conv_nth)
  finally show ?thesis .
qed

lemma length_mask_of:
  "length (mask_of s a b c d) =
     min (min (min (length (s_rise_22 s)) (length (s_rise_67 s)))
              (length (s_consolidation_range s))) (length (s_adr s))"
  by (simp add: mask_of_def series_and_def)

lemma mask_of_nth:
  assumes "i < length (mask_of s min_rise_22 min_rise_67 max_range min_adr)"
  shows "mask_of s min_rise_22 min_rise_67 max_range min_adr ! i =
           (fge (s_rise_22 s ! i) min_rise_22 \<and> fge (s_rise_67 s ! i) min_rise_67 \<and>
            fle (s_consolidation_range s ! i) max_range \<and> fge (s_adr s ! i) min_adr)"
  using assms by (simp add: mask_of_def series_and_def)

lemma flt_not_fle: "flt a b \<Longrightarrow> \<not> fle b a"
  by (cases a; cases b) simp_all

lemma analyze_stock_conv:
  assumes "compute_signals data prior_days consol_days = Inr s"
    and "\<not> int (length (index data)) < prior_days + consol_days + 30"
  shows "analyze_stock ticker data prior_days consol_days min_rise_22 min_rise_67 max_range min_adr
     = (if boolean_index (mask_of s min_rise_22 min_rise_67 max_range min_adr) = [] then None
        else Some (map (result_row ticker data s)
                     (boolean_index (mask_of s min_rise_22 min_rise_67 max_range min_adr))))"
  using assms
  by (simp add: analyze_stock_def analyze_stock_body_def ebind_def select_rows_def boolean_index_Nil)

text \<open>
  C5: the filter mask is the conjunction of exactly
  \<open>rise_22 \<ge> min_rise_22\<close>, \<open>rise_67 \<ge> min_rise_67\<close>,
  \<open>consolidation_range \<le> max_range\<close> and \<open>adr \<ge> min_adr\<close>, all inclusive. A row
  is selected exactly when the four comparisons hold there; a row whose
  \<open>consolidation_range\<close> equals \<open>max_range\<close> (and which passes the other three) is
  selected, one whose \<open>consolidation_range\<close> exceeds \<open>max_range\<close> is not; and the
  result of \<open>_analyze_stock\<close> on a long enough history is one row per selected
  position (None when there is none).
\<close>

theorem mask_is_inclusive_conjunction:
  "let m = mask_of s min_rise_22 min_rise_67 max_range min_adr in
     (\<forall>i. i \<in> set (boolean_index m) \<longleftrightarrow>
        i < length m \<and> fge (s_rise_22 s ! i) min_rise_22 \<and> fge (s_rise_67 s ! i) min_rise_67 \<and>
        fle (s_consolidation_range s ! i) max_range \<and> fge (s_adr s ! i) min_adr) \<and>
     (\<forall>i < length m. s_consolidation_range s ! i = max_range \<and> max_range \<noteq> NaN \<and>
        fge (s_rise_22 s ! i) min_rise_22 \<and> fge (s_rise_67 s ! i) min_rise_67 \<and>
        fge (s_adr s ! i) min_adr \<longrightarrow> i \<in> set (boolean_index m)) \<and>
     (\<forall>i. flt max_range (s_consolidation_range s ! i) \<longrightarrow> i \<notin> set (boolean_index m)) \<and>
     (compute_signals data prior_days consol_days = Inr s \<and>
      \<not> int (length (index data)) < prior_days + consol_days + 30 \<longrightarrow>
        analyze_stock ticker data prior_days consol_days min_rise_22 min_rise_67 max_range min_adr
          = (if boolean_index m = [] then None
             else Some (map (result_row ticker data s) (boolean_index m))))"
proof -
  let ?m = "mask_of s min_rise_22 min_rise_67 max_range min_adr"
  have a: "\<And>i. i \<in> set (boolean_index ?m) \<longleftrightarrow>
        i < length ?m \<and> fge (s_rise_22 s ! i) min_rise_22 \<and> fge (s_rise_67 s ! i) min_rise_67 \<and>
        fle (s_consolidation_range s ! i) max_range \<and> fge (s_adr s ! i) min_adr"
    using mask_of_nth by (auto simp: boolean_index_iff)
  have b: "\<And>i. i < length ?m \<Longrightarrow> s_consolidation_range s ! i = max_range \<and> max_range \<noteq> NaN \<and>
        fge (s_rise_22 s ! i) min_rise_22 \<and> fge (s_rise_67 s ! i) min_rise_67 \<and>
        fge (s_adr s ! i) min_adr \<Longrightarrow> i \<in> set (boolean_index ?m)"
    unfolding a by (simp add: fle_refl)
  have c: "\<And>i. flt max_range (s_consolidation_range s ! i) \<Longrightarrow> i \<notin> set (boolean_index ?m)"
    unfolding a using flt_not_fle by blast
  show ?thesis
    unfolding Let_def using a b c analyze_stock_conv by blast
qed

lemma analyze_stock_ticker:
  assumes "analyze_stock ticker data prior_days consol_days a b c d = Some rows"
    and "r \<in> set rows"
  shows "r_Ticker r = ticker"
  using assms
  by (auto simp: analyze_stock_def analyze_stock_body_def ebind_def select_rows_def result_row_def
      split: sum.splits if_splits)

lemma set_map_filter_conv: "set (List.map_filter f xs) = {y. \<exists>x \<in> set xs. f x = Some y}"
  by (induction xs) (auto simp: List.map_filter_simps split: option.splits)

text \<open>
  C4: a ticker whose fetched history has fewer than \<open>prior_days + consol_days + 30\<close>
  rows is skipped, not failed: the body of \<open>_analyze_stock\<close> returns None through its
  guard without raising, no row of the output of \<open>screen_stocks\<close> carries that ticker,
  and \<open>screen_stocks\<close> itself returns (for a positive \<open>max_workers\<close>).
\<close>

theorem short_history_is_skipped:
  assumes "distinct (map fst stock_data)"
    and "(ticker, data) \<in> set stock_data"
    and "int (length (index data)) < prior_days + consol_days + 30"
  shows "analyze_stock_body ticker data prior_days consol_days
             min_rise_22 min_rise_67 max_range min_adr = Inr None \<and>
         (\<forall>rows. screen_stocks stock_data prior_days consol_days
                    min_rise_22 min_rise_67 max_range min_adr max_workers = Inr rows \<longrightarrow>
                  (\<forall>r \<in> set rows. r_Ticker r \<noteq> ticker)) \<and>
         (0 < max_workers \<longrightarrow>
            (\<exists>rows. screen_stocks stock_data prior_days consol_days
                       min_rise_22 min_rise_67 max_range min_adr max_workers = Inr rows))"
proof (intro conjI allI impI ballI)
  show b: "analyze_stock_body ticker data prior_days consol_days
             min_rise_22 min_rise_67 max_range min_adr = Inr None"
    using assms(3) by (simp add: analyze_stock_body_def)
  then have n: "analyze_stock ticker data prior_days consol_days
             min_rise_22 min_rise_67 max_range min_adr = None"
    by (simp add: analyze_stock_def)
  fix rows r
  assume s: "screen_stocks stock_data prior_days consol_days
                    min_rise_22 min_rise_67 max_range min_adr max_workers = Inr rows"
    and r: "r \<in> set rows"
  from s r obtain item rs where i: "item \<in> set stock_data"
    and a: "analyze_stock (fst item) (snd item) prior_days consol_days
              min_rise_22 min_rise_67 max_range min_adr = Some rs"
    and rs: "r \<in> set rs"
    by (auto simp: screen_stocks_def set_map_filter_conv split: if_splits)
  have t: "r_Ticker r = fst item" by (rule analyze_stock_ticker [OF a rs])
  show "r_Ticker r \<noteq> ticker"
  proof
    assume "r_Ticker r = ticker"
    with t have "(ticker, snd item) \<in> set stock_data" using i by (metis prod.collapse)
    with assms(1,2) have "snd item = data" by (metis eq_key_imp_eq_value)
    with a t \<open>r_Ticker r = ticker\<close> n show False by simp
  qed
next
  assume "0 < max_workers"
  then show "\<exists>rows. screen_stocks stock_data prior_days consol_days
                       min_rise_22 min_rise_67 max_range min_adr max_workers = Inr rows"
    by (simp add: screen_stocks_def)
qed

lemma example_compute: "compute_signals example_history 1 1 = Inr example_signals"
  by code_simp

lemma example_long: "\<not> int (length (index example_history)) < 1 + 1 + 30"
  by (simp add: example_history_def)

lemma example_selected:
  "boolean_index (mask_of example_signals (Fin 0) (Fin 0) (Fin 0) (Fin 100)) = [67]"
  by code_simp

lemma example_not_selected:
  "boolean_index (mask_of example_signals (Fin 0) (Fin 0) (Fin (- 1)) (Fin 100)) = []"
  by code_simp

lemma example_analysis:
  "analyze_stock ticker example_history 1 1 (Fin 0) (Fin 0) (Fin 0) (Fin 100)
     = Some [result_row ticker example_history example_signals 67]"
  by (simp add: analyze_stock_conv [OF example_compute example_long] example_selected)

lemma example_cells:
  "s_consolidation_range example_signals ! 67 = Fin 0"
  "s_rise_22 example_signals ! 67 = Fin 0"
  "s_rise_67 example_signals ! 67 = Fin 0"
  "s_adr example_signals ! 67 = Fin 100"
  "length (mask_of example_signals a b c d) = 68"
  by (simp_all add: example_signals_def nth_append nth_Cons' length_mask_of)

theorem mask_is_inclusive_conjunction_witness:
  "compute_signals example_history 1 1 = Inr example_signals \<and>
   \<not> int (length (index example_history)) < 1 + 1 + 30 \<and>
   67 < length (mask_of example_signals (Fin 0) (Fin 0) (Fin 0) (Fin 100)) \<and>
   s_consolidation_range example_signals ! 67 = Fin 0 \<and>
   fge (s_rise_22 example_signals ! 67) (Fin 0) \<and>
   fge (s_rise_67 example_signals ! 67) (Fin 0) \<and>
   fge (s_adr example_signals ! 67) (Fin 100) \<and>
   67 \<in> set (boolean_index (mask_of example_signals (Fin 0) (Fin 0) (Fin 0) (Fin 100))) \<and>
   analyze_stock ''MSFT'' example_history 1 1 (Fin 0) (Fin 0) (Fin 0) (Fin 100)
     = Some [result_row ''MSFT'' example_history example_signals 67] \<and>
   flt (Fin (- 1)) (s_consolidation_range example_signals ! 67) \<and>
   67 \<notin> set (boolean_index (mask_of example_signals (Fin 0) (Fin 0) (Fin (- 1)) (Fin 100))) \<and>
   analyze_stock ''MSFT'' example_history 1 1 (Fin 0) (Fin 0) (Fin (- 1)) (Fin 100) = None"
proof -
  note t1 = mask_is_inclusive_conjunction [of example_signals "Fin 0" "Fin 0" "Fin 0" "Fin 100"
      example_history 1 1 "''MSFT''"]
  note t2 = mask_is_inclusive_conjunction [of example_signals "Fin 0" "Fin 0" "Fin (- 1)" "Fin 100"
      example_history 1 1 "''MSFT''"]
  have g: "fge (Fin 0) (Fin 0)" "fge (Fin 100) (Fin 100)" "flt (Fin (- 1)) (Fin 0)"
    by (simp_all add: fge_def)
  have in67: "67 \<in> set (boolean_index (mask_of example_signals (Fin 0) (Fin 0) (Fin 0) (Fin 100)))"
    using t1 g by (simp add: Let_def example_cells)
  have out67: "67 \<notin> set (boolean_index (mask_of example_signals (Fin 0) (Fin 0) (Fin (- 1)) (Fin 100)))"
    using t2 g by (simp add: Let_def example_cells)
  have a1: "analyze_stock ''MSFT'' example_history 1 1 (Fin 0) (Fin 0) (Fin 0) (Fin 100)
     = Some [result_row ''MSFT'' example_history example_signals 67]"
    using t1 example_compute example_long by (simp add: Let_def example_selected)
  have a2: "analyze_stock ''MSFT'' example_history 1 1 (Fin 0) (Fin 0) (Fin (- 1)) (Fin 100) = None"
    using t2 example_compute example_long by (simp add: Let_def example_not_selected)
  show ?thesis
    using example_compute example_long in67 out67 a1 a2 g by (simp add: example_cells)
qed

theorem short_history_is_skipped_witness:
  "distinct (map fst example_stock_data) \<and>
   (''AAPL'', example_bars) \<in> set example_stock_data \<and>
   int (length (index example_bars)) < 1 + 1 + 30 \<and>
   analyze_stock_body ''AAPL'' example_bars 1 1 (Fin 0) (Fin 0) (Fin 0) (Fin 100) = Inr None \<and>
   screen_stocks example_stock_data 1 1 (Fin 0) (Fin 0) (Fin 0) (Fin 100) 4
     = Inr [result_row ''MSFT'' example_history example_signals 67] \<and>
   r_Ticker (result_row ''MSFT'' example_history example_signals 67) \<noteq> ''AAPL''"
proof -
  have d: "distinct (map fst example_stock_data)"
    and m: "(''AAPL'', example_bars) \<in> set example_stock_data"
    by (simp_all add: example_stock_data_def)
  have s: "int (length (index example_bars)) < 1 + 1 + 30"
    by (simp add: example_bars_def)
  note t = short_history_is_skipped [of example_stock_data "''AAPL''" example_bars 1 1
      "Fin 0" "Fin 0" "Fin 0" "Fin 100" 4, OF d m s]
  from t have n: "analyze_stock ''AAPL'' example_bars 1 1 (Fin 0) (Fin 0) (Fin 0) (Fin 100) = None"
    by (simp add: analyze_stock_def)
  have r: "screen_stocks example_stock_data 1 1 (Fin 0) (Fin 0) (Fin 0) (Fin 100) 4
     = Inr [result_row ''MSFT'' example_history example_signals 67]"
    by (simp add: screen_stocks_def example_stock_data_def List.map_filter_simps n example_analysis)
  show ?thesis
    using d m s t r by (simp add: result_row_def)
qed

theorem breakout_second_conjunct_redundant_witness:
  "rolling fmaxs 2 [Fin 1, Fin 2, Fin 3] = Inr [NaN, Fin 2, Fin 3] \<and>
   shift 1 [NaN, Fin 2, Fin 3] ! 2 \<noteq> NaN \<and>
   fle (shift 1 [Fin 1, Fin 2, Fin 3] ! 2) (shift 1 [NaN, Fin 2, Fin 3] ! 2) \<and>
   breakout_of [Fin 1, Fin 2, Fin 3] [NaN, Fin 2, Fin 3] = [False, False, True]"
proof -
  have h: "rolling fmaxs 2 [Fin 1, Fin 2, Fin 3] = Inr [NaN, Fin 2, Fin 3]"
    by code_simp
  have d: "shift 1 [NaN, Fin 2, Fin 3] ! 2 \<noteq> NaN"
    by (simp add: shift_def)
  have g: "map2 fgt [Fin 1, Fin 2, Fin 3] (shift 1 [NaN, Fin 2, Fin 3]) = [False, False, True]"
    by (simp add: shift_def fgt_def)
  show ?thesis
    using breakout_second_conjunct_redundant [OF h] h d g by simp
qed

section \<open>Well-formed frames\<close>

text \<open>
  On a frame whose columns all have one cell per row, the indicator columns and the series
  of the screener have one cell per row too, so every position the model reads with
  \<open>!\<close> is in range.
\<close>

lemma getitem_length:
  assumes "wf_frame data" and "getitem data name = Inr c"
  shows "length c = length (index data)"
proof -
  from assms(2) have "map_of (columns data) name = Some c"
    by (auto simp: getitem_def split: option.splits)
  then have "(name, c) \<in> set (columns data)" by (rule map_of_SomeD)
  with assms(1) show ?thesis by (auto simp: wf_frame_def list_all_iff)
qed

lemma length_ewm_loop: "length (ewm_loop alpha st xs) = length xs"
  by (induction xs arbitrary: st) (simp_all add: Let_def)

lemma length_ewm_mean: "length (ewm_mean n xs) = length xs"
proof (cases "prep_values xs")
  case Nil
  then show ?thesis using length_prep_values [of xs] by (simp add: ewm_mean_def)
next
  case (Cons v vs)
  then show ?thesis using length_prep_values [of xs] by (simp add: ewm_mean_def length_ewm_loop)
qed

lemma set_update_subset: "set (AList.update k v al) \<subseteq> insert (k, v) (set al)"
  by (induction al) auto

lemma wf_frame_setitem:
  assumes "wf_frame data" and "length vals = length (index data)"
  shows "wf_frame (setitem data name vals)"
proof -
  have "distinct (map fst (AList.update name vals (columns data)))"
    using assms(1) by (simp add: wf_frame_def distinct_update)
  moreover have "\<forall>c \<in> set (AList.update name vals (columns data)). length (snd c) = length (index data)"
    using assms set_update_subset [of name vals "columns data"]
    by (auto simp: wf_frame_def list_all_iff)
  ultimately show ?thesis by (simp add: wf_frame_def setitem_def list_all_iff)
qed

lemma wf_frame_indicators:
  assumes "wf_frame data" and "add_indicators data = Inr data'"
  shows "wf_frame data'"
proof -
  from assms(2) obtain c where c: "getitem data ''Close'' = Inr c"
    and d: "data' = indicators_of data c"
    by (auto simp: add_indicators_conv split: sum.splits)
  have l: "length c = length (index data)" by (rule getitem_length [OF assms(1) c])
  show ?thesis
    unfolding d indicators_of_def Let_def
    by (intro wf_frame_setitem assms(1))
       (simp_all add: index_setitem length_ewm_mean length_rolling_apply l)
qed

lemma compute_signals_lengths:
  assumes "wf_frame data" and "compute_signals data prior_days consol_days = Inr s"
  shows "length (s_close s) = length (index data)"
    and "length (s_volume s) = length (index data)"
    and "length (s_rise_22 s) = length (index data)"
    and "length (s_rise_67 s) = length (index data)"
    and "length (s_consolidation_range s) = length (index data)"
    and "length (s_adr s) = length (index data)"
    and "length (s_breakout s) = length (index data)"
    and "length (s_breakout_volume s) = length (index data)"
    and "length (mask_of s a b c d) = length (index data)"
proof -
  from assms(2) obtain close volume high low where
    g: "getitem data ''Close'' = Inr close" "getitem data ''Volume'' = Inr volume"
       "getitem data ''High'' = Inr high" "getitem data ''Low'' = Inr low"
    by (auto simp: compute_signals_def ebind_def split: sum.splits)
  note l = g [THEN getitem_length [OF assms(1)]]
  from assms(2) g have w: "0 \<le> prior_days" "0 \<le> consol_days"
    by (auto simp: compute_signals_def ebind_def rolling_def Let_def split: sum.splits if_splits)
  from assms(2) g w have s: "s = \<lparr>s_close = close, s_volume = volume,
      s_rise_22 = percent_change (series_div close (shift 22 close)),
      s_rise_67 = percent_change (series_div close (shift 67 close)),
      s_consolidation_range = percent_change (series_div
         (rolling_apply fmaxs (nat consol_days) close) (rolling_apply fmins (nat consol_days) close)),
      s_adr = map (\<lambda>x. fmul x (Fin 100))
         (rolling_apply fmean (nat prior_days) (series_div (series_sub high low) (shift 1 close))),
      s_breakout = breakout_of close (rolling_apply fmaxs (nat consol_days) close),
      s_breakout_volume = map2 fgt volume (map (\<lambda>x. fmul x (Fin (3 / 2))) (rolling_apply fmean 10 volume))\<rparr>"
    by (simp add: compute_signals_def ebind_def rolling_def Let_def)
  show "length (s_close s) = length (index data)"
    and "length (s_volume s) = length (index data)"
    and r22: "length (s_rise_22 s) = length (index data)"
    and r67: "length (s_rise_67 s) = length (index data)"
    and cr: "length (s_consolidation_range s) = length (index data)"
    and adr: "length (s_adr s) = length (index data)"
    and "length (s_breakout s) = length (index data)"
    and "length (s_breakout_volume s) = length (index data)"
    unfolding s
    by (simp_all add: l percent_change_def series_div_def series_sub_def breakout_of_def
        series_and_def length_shift length_rolling_apply)
  show "length (mask_of s a b c d) = length (index data)"
    by (simp add: length_mask_of r22 r67 cr adr)
qed

end
